theory Spec2Isabelle
  imports Main
begin

section \<open>JavaScript values\<close>

text \<open>
  The proxy (\<^verbatim>\<open>HITLProxy.ts\<close>) passes tool arguments and result payloads around as
  untyped JavaScript values (\<^verbatim>\<open>any\<close>). They are modelled as a JSON datatype with
  \<^verbatim>\<open>undefined\<close> added for an absent property. An object is an association list;
  a property read takes the first binding of the key. Numbers are restricted to
  integers: the code only tests them for truthiness.
\<close>

datatype json =
    JUndefined
  | JNull
  | JBool bool
  | JNum int
  | JStr string
  | JArr "json list"
  | JObj "(string \<times> json) list"

type_synonym obj = "(string \<times> json) list"

text \<open>JavaScript truthiness, as tested by \<^verbatim>\<open>if (x)\<close>, \<^verbatim>\<open>!x\<close> and \<^verbatim>\<open>x && y\<close>.\<close>

fun truthy :: "json \<Rightarrow> bool" where
  "truthy JUndefined = False"
| "truthy JNull = False"
| "truthy (JBool b) = b"
| "truthy (JNum n) = (n \<noteq> 0)"
| "truthy (JStr s) = (s \<noteq> [])"
| "truthy (JArr xs) = True"
| "truthy (JObj kvs) = True"

text \<open>
  Reading a property. \<^verbatim>\<open>x?.k\<close> is \<^verbatim>\<open>undefined\<close> on \<^verbatim>\<open>null\<close> and \<^verbatim>\<open>undefined\<close>;
  \<^verbatim>\<open>x.k\<close> is only ever evaluated by the code on a truthy \<open>x\<close>. None of the keys the
  code reads (\<^verbatim>\<open>taskId\<close>, \<^verbatim>\<open>structuredContent\<close>, \<^verbatim>\<open>status\<close>, \<^verbatim>\<open>progressToken\<close>) is a
  built-in property of a string, number, boolean or array, so the read gives
  \<^verbatim>\<open>undefined\<close> on everything but an object.
\<close>

fun get_prop :: "json \<Rightarrow> string \<Rightarrow> json" where
  "get_prop (JObj kvs) k = (case map_of kvs k of None \<Rightarrow> JUndefined | Some v \<Rightarrow> v)"
| "get_prop v k = JUndefined"

text \<open>\<^verbatim>\<open>typeof x === 'string'\<close>\<close>

fun is_string :: "json \<Rightarrow> bool" where
  "is_string (JStr s) = True"
| "is_string v = False"

text \<open>\<^verbatim>\<open>a ?? b\<close>\<close>

fun nullish_or :: "json \<Rightarrow> json \<Rightarrow> json" where
  "nullish_or JUndefined b = b"
| "nullish_or JNull b = b"
| "nullish_or a b = a"

text \<open>
  \<^verbatim>\<open>{...r, k: v}\<close>: the properties of \<open>r\<close>, with \<open>k\<close> overwritten in place when \<open>r\<close>
  has it and added at the end otherwise.
\<close>

fun obj_set :: "string \<Rightarrow> json \<Rightarrow> obj \<Rightarrow> obj" where
  "obj_set k v [] = [(k, v)]"
| "obj_set k v (p # r) = (if fst p = k then (k, v) # r else p # obj_set k v r)"

text \<open>
  A thrown or rejected value. The \<^verbatim>\<open>catch\<close> blocks read three properties of it:
  \<^verbatim>\<open>error\<close>, \<^verbatim>\<open>error_description\<close> and \<^verbatim>\<open>message\<close>, each possibly absent.
\<close>

record js_error =
  error :: "string option"
  error_description :: "string option"
  message :: "string option"

text \<open>\<^verbatim>\<open>new Error(msg)\<close>\<close>

definition Error :: "string \<Rightarrow> js_error" where
  "Error msg = \<lparr>error = None, error_description = None, message = Some msg\<rparr>"

text \<open>A possibly absent string inside a template literal: \<^verbatim>\<open>`${x}`\<close>.\<close>

fun template :: "string option \<Rightarrow> string" where
  "template None = ''undefined''"
| "template (Some x) = x"

text \<open>\<^verbatim>\<open>x || d\<close> on a possibly absent string: the empty string is falsy.\<close>

fun or_default :: "string option \<Rightarrow> string \<Rightarrow> string" where
  "or_default None d = d"
| "or_default (Some x) d = (if x = [] then d else x)"

section \<open>Strings of numbers\<close>

text \<open>
  \<^verbatim>\<open>`${Date.now()}`\<close> is the decimal rendering of a non-negative integer; the clock is
  a \<open>nat\<close>, in milliseconds.
\<close>

definition digit_char :: "nat \<Rightarrow> char" where
  "digit_char d = ''0123456789'' ! d"

fun show_nat :: "nat \<Rightarrow> string" where
  "show_nat n = (if n < 10 then [digit_char n] else show_nat (n div 10) @ [digit_char (n mod 10)])"

declare show_nat.simps [simp del]

text \<open>\<^verbatim>\<open>s.substring(a, b)\<close>: both indices are clamped to the length and swapped when
  out of order.\<close>

definition substring :: "string \<Rightarrow> nat \<Rightarrow> nat \<Rightarrow> string" where
  "substring s a b =
     (let a' = min a (length s); b' = min b (length s)
      in take (max a' b' - min a' b') (drop (min a' b') s))"

section \<open>Configuration\<close>

record MCPServerConfig =
  command :: string
  args :: "string list"
  env :: "(string \<times> string) list"
  HighRiskTools :: "string list"
  BlockedTools :: "string list"

text \<open>
  The static table \<^verbatim>\<open>HITLProxy.MCPServerMap\<close>, as the map of its own entries. Its one
  entry takes the bearer credential from the process environment, here the parameter
  \<open>access_token\<close>. The functions below take the table as a parameter \<open>cfg\<close>, so that the
  theorems hold for the source's table and for any table with further entries.
\<close>

definition todo_config :: "string \<Rightarrow> MCPServerConfig" where
  "todo_config access_token =
     \<lparr>command = ''/usr/bin/node'',
      args = [''dist/mcp-server/todo-mcp-server-http.js''],
      env = [(''ACCESS_TOKEN'', access_token)],
      HighRiskTools = [''add_todos''],
      BlockedTools = [''welcome_to_okta'']\<rparr>"

definition MCPServerMap :: "string \<Rightarrow> string \<rightharpoonup> MCPServerConfig" where
  "MCPServerMap access_token = [''todo-mcp-server'' \<mapsto> todo_config access_token]"

text \<open>
  The table is a plain object, read with \<^verbatim>\<open>MCPServerMap[name]\<close>. The read gives the entry
  of a key of the table; for a name that is not a key but names a property of
  \<^verbatim>\<open>Object.prototype\<close> it gives that inherited value, a function or an object, which is
  truthy and has none of the fields of an entry; for any other name it gives
  \<^verbatim>\<open>undefined\<close>.
\<close>

datatype table_entry = Absent | Inherited | Own MCPServerConfig

definition Object_prototype_names :: "string list" where
  "Object_prototype_names =
     [''constructor'', ''__defineGetter__'', ''__defineSetter__'', ''hasOwnProperty'',
      ''__lookupGetter__'', ''__lookupSetter__'', ''isPrototypeOf'', ''propertyIsEnumerable'',
      ''toString'', ''valueOf'', ''__proto__'', ''toLocaleString'']"

definition table_lookup :: "(string \<rightharpoonup> MCPServerConfig) \<Rightarrow> string \<Rightarrow> table_entry" where
  "table_lookup cfg k =
     (case cfg k of
        Some config \<Rightarrow> Own config
      | None \<Rightarrow> if k \<in> set Object_prototype_names then Inherited else Absent)"

section \<open>State and environment\<close>

datatype task_status = PENDING | APPROVED | DENIED

record task =
  toolName :: string
  toolArgs :: json
  status :: task_status
  hitlOobCode :: "string option"

text \<open>
  What the proxy does to the outside world is recorded as a trace of events, oldest
  first: requests to the approval channel (\<^verbatim>\<open>HITLApprovalService\<close>), requests to the
  downstream server, progress notifications to the caller, and timer waits.
\<close>

datatype event =
    SendApprovalRequest string
  | CheckForApproval string
  | DownstreamCallTool string json
  | DownstreamListTools
  | DownstreamConnect
  | ServerConnect
  | ProgressNotification json
  | Sleep nat

text \<open>
  The proxy's mutable state is the map \<^verbatim>\<open>pendingTasks\<close>; the trace and the wall
  clock (what \<^verbatim>\<open>Date.now()\<close> reads) are carried with it.
\<close>

record proxy_state =
  pendingTasks :: "string \<rightharpoonup> task"
  trace :: "event list"
  clock :: nat

text \<open>
  The environment answers each request as a function of the trace so far, so its
  answers may change over time in any way. A rejected promise is \<open>Inl\<close>.
  \<open>sendApprovalRequest\<close> and \<open>checkForApproval\<close> are the two methods of
  \<^verbatim>\<open>HITLApprovalService\<close>, which \<^verbatim>\<open>HITLProxy.ts\<close> imports; the three downstream
  operations are those of the SDK client, \<open>downstream_connect\<close> being given the entry to
  launch (none for an inherited value); \<open>server_notification\<close> and \<open>server_connect\<close>
  are those of the SDK server. Nothing is assumed about any of them.
  \<open>Math_random_toString36\<close> is the value of \<^verbatim>\<open>Math.random().toString(36)\<close>.
  \<open>latency\<close> is the time an awaited operation takes; a timer of \<open>n\<close> milliseconds
  takes \<open>n\<close> more. Synchronous code takes no time. Requests are handled one after
  the other: interleaving of concurrent requests is not modelled. Console output is
  not modelled.
\<close>

record runtime =
  sendApprovalRequest :: "event list \<Rightarrow> string \<Rightarrow> js_error + string"
  checkForApproval :: "event list \<Rightarrow> string \<Rightarrow> js_error + string"
  downstream_callTool :: "event list \<Rightarrow> string \<Rightarrow> json \<Rightarrow> js_error + obj"
  downstream_listTools :: "event list \<Rightarrow> js_error + json list"
  downstream_connect :: "event list \<Rightarrow> MCPServerConfig option \<Rightarrow> js_error + unit"
  server_notification :: "event list \<Rightarrow> json \<Rightarrow> js_error + unit"
  server_connect :: "event list \<Rightarrow> js_error + unit"
  Math_random_toString36 :: "event list \<Rightarrow> string"
  latency :: "event list \<Rightarrow> event \<Rightarrow> nat"

fun timer :: "event \<Rightarrow> nat" where
  "timer (Sleep n) = n"
| "timer ev = 0"

definition emit :: "runtime \<Rightarrow> event \<Rightarrow> proxy_state \<Rightarrow> proxy_state" where
  "emit e ev s =
     s\<lparr>trace := trace s @ [ev], clock := clock s + timer ev + latency e (trace s) ev\<rparr>"

definition delete_task :: "string \<Rightarrow> proxy_state \<Rightarrow> proxy_state" where
  "delete_task taskId s = s\<lparr>pendingTasks := (pendingTasks s)(taskId := None)\<rparr>"

definition set_task :: "string \<Rightarrow> task \<Rightarrow> proxy_state \<Rightarrow> proxy_state" where
  "set_task taskId t s = s\<lparr>pendingTasks := (pendingTasks s)(taskId \<mapsto> t)\<rparr>"

section \<open>callTool\<close>

definition text_content :: "string \<Rightarrow> json" where
  "text_content t = JArr [JObj [(''type'', JStr ''text''), (''text'', JStr t)]]"

text \<open>The cross mark that opens the blocked-tool message, as its UTF-8 bytes.\<close>

definition cross_mark :: string where
  "cross_mark = [CHR 0xE2, CHR 0x9D, CHR 0x8C]"

definition blocked_payload :: "string \<Rightarrow> json" where
  "blocked_payload name =
     JObj [(''isError'', JBool True),
           (''content'', text_content (cross_mark @ '' Access to '' @ name @ '' has been blocked.''))]"

definition setup_failed_payload :: "js_error \<Rightarrow> json" where
  "setup_failed_payload err =
     JObj [(''isError'', JBool True),
           (''content'', text_content (''Authorization setup failed: '' @ template (message err)))]"

text \<open>
  The taskId of a high-risk invocation,
  \<^verbatim>\<open>`task-${Date.now()}-${Math.random().toString(36).substring(2, 6)}`\<close>, as a
  function of the clock reading and of the base-36 rendering of the random number.
\<close>

definition genTaskId :: "nat \<Rightarrow> string \<Rightarrow> string" where
  "genTaskId now rnd = ''task-'' @ show_nat now @ ''-'' @ substring rnd 2 6"

text \<open>
  The format the specification gives for a taskId, in its words:
  \<^verbatim>\<open>task-<digits>-<4 alnum>\<close>, that is \<^verbatim>\<open>task-\<close>, one or more decimal digits, a dash and
  exactly four letters or digits. It is stated apart from \<open>genTaskId\<close>, to be compared
  with it.
\<close>

definition is_digit :: "char \<Rightarrow> bool" where
  "is_digit c = (c \<in> set ''0123456789'')"

definition is_alnum :: "char \<Rightarrow> bool" where
  "is_alnum c = (c \<in> set ''0123456789abcdefghijklmnopqrstuvwxyzABCDEFGHIJKLMNOPQRSTUVWXYZ'')"

definition task_id_format :: "string \<Rightarrow> bool" where
  "task_id_format x =
     (take 5 x = ''task-'' \<and>
      (let rest = drop 5 x
       in takeWhile is_digit rest \<noteq> [] \<and>
          (case dropWhile is_digit rest of
             [] \<Rightarrow> False
           | c # suffix \<Rightarrow> c = CHR ''-'' \<and> length suffix = 4 \<and> list_all is_alnum suffix)))"

definition pending_poll_payload :: "string \<Rightarrow> string \<Rightarrow> json" where
  "pending_poll_payload name taskId =
     JObj [(''content'', text_content (''AUTHORIZATION_REQUIRED: Task '' @ name @
              '' requires approval. The task is pending. The next necessary step is to call the '' @
              [CHR 0x27] @ ''check_task_status'' @ [CHR 0x27] @
              '' tool with the Task ID to get the current status.'')),
           (''structuredContent'',
              JObj [(''status'', JStr ''PENDING_APPROVAL_POLL''),
                    (''next_action'', JStr ''call_tool''),
                    (''tool_to_call'', JStr ''check_task_status''),
                    (''taskId'', JStr taskId),
                    (''tool_args'', JObj [(''taskId'', JStr taskId)])])]"

definition progress_message :: "json \<Rightarrow> json" where
  "progress_message progressToken =
     JObj [(''method'', JStr ''notifications/progress''),
           (''params'', JObj [(''progressToken'', progressToken),
                              (''progress'', JNum 10),
                              (''total'', JNum 100),
                              (''message'', JStr ''Awaiting Approval for High Risk Task'')])]"

definition progress_notification :: "json \<Rightarrow> event" where
  "progress_notification progressToken = ProgressNotification (progress_message progressToken)"

text \<open>
  Reading \<^verbatim>\<open>BlockedTools.includes\<close> of an inherited value throws a \<^verbatim>\<open>TypeError\<close>; the
  message is the one of Node.
\<close>

definition TypeError_includes :: js_error where
  "TypeError_includes =
     Error (''Cannot read properties of undefined (reading '' @ [CHR 0x27] @ ''includes'' @
            [CHR 0x27] @ '')'')"

definition approver :: string where
  "approver = ''bob@tables.fake''"

text \<open>
  \<^verbatim>\<open>callTool\<close> is an \<^verbatim>\<open>async\<close> method: \<open>Inl\<close> is its rejection. The awaited progress
  notification is outside the \<^verbatim>\<open>try\<close> block, so its rejection is the rejection of
  \<^verbatim>\<open>callTool\<close>, after the task has been stored.
\<close>

definition callTool ::
  "(string \<rightharpoonup> MCPServerConfig) \<Rightarrow> runtime \<Rightarrow> string \<Rightarrow> string \<Rightarrow> json \<Rightarrow> json \<Rightarrow>
   proxy_state \<Rightarrow> (js_error + json) \<times> proxy_state" where
  "callTool cfg e downstreamServerName name toolargs progressToken s =
     (case table_lookup cfg downstreamServerName of
        Absent \<Rightarrow> (Inr JNull, s)
      | Inherited \<Rightarrow> (Inl TypeError_includes, s)
      | Own config \<Rightarrow>
          if name \<in> set (BlockedTools config) then (Inr (blocked_payload name), s)
          else if name \<in> set (HighRiskTools config) then
            (let taskId = genTaskId (clock s) (Math_random_toString36 e (trace s));
                 s1 = emit e (SendApprovalRequest approver) s
             in case sendApprovalRequest e (trace s) approver of
                  Inl err \<Rightarrow> (Inr (setup_failed_payload err), s1)
                | Inr oobCode \<Rightarrow>
                    (let s2 = set_task taskId
                                \<lparr>toolName = name, toolArgs = toolargs, status = PENDING,
                                 hitlOobCode = Some oobCode\<rparr> s1
                     in if truthy progressToken then
                          (case server_notification e (trace s2) (progress_message progressToken) of
                             Inl err \<Rightarrow> (Inl err, emit e (progress_notification progressToken) s2)
                           | Inr u \<Rightarrow>
                               (Inr (pending_poll_payload name taskId),
                                emit e (progress_notification progressToken) s2))
                        else (Inr (pending_poll_payload name taskId), s2)))
          else
            (let s1 = emit e (DownstreamCallTool name toolargs) s
             in case downstream_callTool e (trace s) name toolargs of
                  Inr toolsResult \<Rightarrow> (Inr (JObj toolsResult), s1)
                | Inl err \<Rightarrow> (Inr JNull, s1)))"

section \<open>handleTaskStatusCheck\<close>

definition not_found_payload :: "string \<Rightarrow> json" where
  "not_found_payload taskId =
     JObj [(''content'', text_content (''Error: No active task found with ID '' @ taskId @
              ''. It may have already expired or been completed.''))]"

definition still_pending_payload :: "string \<Rightarrow> string \<Rightarrow> json" where
  "still_pending_payload taskId name =
     JObj [(''content'', text_content (''Task '' @ taskId @
              '' is still PENDING human approval. Please wait and check again.'')),
           (''structuredContent'', JObj [(''status'', JStr ''PENDING''), (''tool'', JStr name)])]"

definition failed_payload :: "string \<Rightarrow> js_error \<Rightarrow> json" where
  "failed_payload taskId err =
     JObj [(''isError'', JBool True),
           (''content'', text_content (''Task '' @ taskId @
              '' approval failed or was denied. Status: '' @
              or_default (error err) ''DENIED/FAILED'' @ ''.''))]"

definition completed_payload :: "obj \<Rightarrow> string \<Rightarrow> json" where
  "completed_payload toolsResult name =
     JObj (obj_set ''structuredContent''
             (JObj [(''status'', JStr ''COMPLETED''), (''tool'', JStr name)]) toolsResult)"

text \<open>
  \<^verbatim>\<open>!task || !task.hitlOobCode\<close>: the task is absent, or its code is absent or the
  empty string. One \<^verbatim>\<open>try\<close> block holds the query to the channel and the downstream
  call, so the \<^verbatim>\<open>catch\<close> block gets the failure of either.
\<close>

definition handleTaskStatusCheck ::
  "runtime \<Rightarrow> string \<Rightarrow> proxy_state \<Rightarrow> json \<times> proxy_state" where
  "handleTaskStatusCheck e taskId s =
     (case pendingTasks s taskId of
        None \<Rightarrow> (not_found_payload taskId, s)
      | Some task \<Rightarrow>
          (case hitlOobCode task of
             None \<Rightarrow> (not_found_payload taskId, s)
           | Some oobCode \<Rightarrow>
               if oobCode = [] then (not_found_payload taskId, s)
               else
                 (let s1 = emit e (CheckForApproval oobCode) s
                  in case checkForApproval e (trace s) oobCode of
                       Inl err \<Rightarrow> (failed_payload taskId err, delete_task taskId s1)
                     | Inr answer \<Rightarrow>
                         if answer = ''APPROVED'' then
                           (let s2 = emit e (DownstreamCallTool (toolName task) (toolArgs task)) s1
                            in case downstream_callTool e (trace s1) (toolName task) (toolArgs task) of
                                 Inl err \<Rightarrow> (failed_payload taskId err, delete_task taskId s2)
                               | Inr toolsResult \<Rightarrow>
                                   (completed_payload toolsResult (toolName task),
                                    delete_task taskId s2))
                         else (still_pending_payload taskId (toolName task), s1))))"

section \<open>The request handlers\<close>

text \<open>
  The bounded wait of \<^verbatim>\<open>check_task_status\<close>, in the call-tool handler that
  \<^verbatim>\<open>setupToolHandlers\<close> installs:
  \<^verbatim>\<open>while (Date.now() < startTime + 10000) { ...; await sleep(4000) }\<close>.
  Each round waits at least four seconds, which is why the loop ends.
\<close>

function poll_loop ::
  "runtime \<Rightarrow> string \<Rightarrow> nat \<Rightarrow> json \<Rightarrow> proxy_state \<Rightarrow> json \<times> proxy_state" where
  "poll_loop e taskId startTime lastresult s =
     (if clock s < startTime + 10000 then
        (let r = handleTaskStatusCheck e taskId s;
             result = fst r;
             lastresult' = nullish_or result lastresult;
             st = get_prop (get_prop result ''structuredContent'') ''status''
         in if truthy st \<and> st \<noteq> JStr ''PENDING'' then r
            else poll_loop e taskId startTime lastresult' (emit e (Sleep 4000) (snd r)))
      else (lastresult, s))"
  by pat_completeness auto
termination
  apply (relation "measure (\<lambda>(e, taskId, startTime, lastresult, s). startTime + 10000 - clock s)")
   apply simp
  apply (auto simp: handleTaskStatusCheck_def emit_def delete_task_def Let_def
              split: option.splits sum.splits if_splits)
  done

declare poll_loop.simps [simp del]

record request =
  name :: string
  arguments :: json
  meta :: json

definition bad_taskId_payload :: json where
  "bad_taskId_payload =
     JObj [(''content'', text_content ''Error: check_task_status requires a valid taskId argument.'')]"

text \<open>\<^verbatim>\<open>JSON.stringify\<close> of an array of strings.\<close>

definition hex_char :: "nat \<Rightarrow> char" where
  "hex_char d = ''0123456789abcdef'' ! d"

definition escape_char :: "char \<Rightarrow> string" where
  "escape_char c =
     (if c = CHR 0x22 then [CHR 0x5C, CHR 0x22]
      else if c = CHR 0x5C then [CHR 0x5C, CHR 0x5C]
      else if c = CHR 0x08 then [CHR 0x5C, CHR ''b'']
      else if c = CHR 0x0C then [CHR 0x5C, CHR ''f'']
      else if c = CHR 0x0A then [CHR 0x5C, CHR ''n'']
      else if c = CHR 0x0D then [CHR 0x5C, CHR ''r'']
      else if c = CHR 0x09 then [CHR 0x5C, CHR ''t'']
      else if (of_char c :: nat) < 32
        then [CHR 0x5C, CHR ''u'', CHR ''0'', CHR ''0'',
              hex_char (of_char c div 16), hex_char (of_char c mod 16)]
      else [c])"

definition stringify_string :: "string \<Rightarrow> string" where
  "stringify_string x = [CHR 0x22] @ concat (map escape_char x) @ [CHR 0x22]"

fun join :: "string \<Rightarrow> string list \<Rightarrow> string" where
  "join sep [] = []"
| "join sep [x] = x"
| "join sep (x # y # ys) = x @ sep @ join sep (y # ys)"

definition stringify_strings :: "string list \<Rightarrow> string" where
  "stringify_strings xs = ''['' @ join '','' (map stringify_string xs) @ '']''"

definition high_risk_listing :: "MCPServerConfig \<Rightarrow> json" where
  "high_risk_listing config =
     JObj [(''content'', text_content (''High risk tools are '' @
              stringify_strings (HighRiskTools config) @ ''.''))]"

text \<open>
  An inherited value has no \<^verbatim>\<open>HighRiskTools\<close>: \<^verbatim>\<open>JSON.stringify(undefined)\<close> is
  \<^verbatim>\<open>undefined\<close>, which the template renders by name.
\<close>

definition high_risk_listing_undefined :: json where
  "high_risk_listing_undefined =
     JObj [(''content'', text_content (''High risk tools are '' @ template None @ ''.''))]"

text \<open>Reading \<^verbatim>\<open>HighRiskTools\<close> of \<^verbatim>\<open>undefined\<close> throws a \<^verbatim>\<open>TypeError\<close>.\<close>

definition TypeError_HighRiskTools :: js_error where
  "TypeError_HighRiskTools =
     Error (''Cannot read properties of undefined (reading '' @ [CHR 0x27] @ ''HighRiskTools'' @
            [CHR 0x27] @ '')'')"

text \<open>
  The handler of a call-tool request; \<open>Inl\<close> is a rejected request. What
  \<^verbatim>\<open>callTool\<close> returns or rejects with is passed on as it is. In
  \<^verbatim>\<open>!args || typeof args.taskId !== 'string'\<close> the right operand is evaluated only on
  truthy arguments; it is the \<open>case\<close> below, whose first branch is a \<^verbatim>\<open>taskId\<close> that is a
  string.
\<close>

definition handleCallTool ::
  "(string \<rightharpoonup> MCPServerConfig) \<Rightarrow> runtime \<Rightarrow> string \<Rightarrow> request \<Rightarrow> proxy_state \<Rightarrow>
   (js_error + json) \<times> proxy_state" where
  "handleCallTool cfg e downstreamServerName req s =
     (let progressToken = get_prop (meta req) ''progressToken''
      in if name req = ''check_task_status'' then
           (if \<not> truthy (arguments req) then (Inr bad_taskId_payload, s)
            else case get_prop (arguments req) ''taskId'' of
                   JStr taskId \<Rightarrow>
                     (let r = poll_loop e taskId (clock s) JUndefined s in (Inr (fst r), snd r))
                 | _ \<Rightarrow> (Inr bad_taskId_payload, s))
         else if name req = ''list_high_risk_tools'' then
           (case table_lookup cfg downstreamServerName of
              Absent \<Rightarrow> (Inl TypeError_HighRiskTools, s)
            | Inherited \<Rightarrow> (Inr high_risk_listing_undefined, s)
            | Own config \<Rightarrow> (Inr (high_risk_listing config), s))
         else callTool cfg e downstreamServerName (name req) (arguments req) progressToken s)"

text \<open>
  \<^verbatim>\<open>initializeDownstreamConnection\<close>, run once by \<^verbatim>\<open>HITLProxy.create\<close> before the
  server starts to take requests; a failure ends the process.
\<close>

definition initializeDownstreamConnection ::
  "(string \<rightharpoonup> MCPServerConfig) \<Rightarrow> runtime \<Rightarrow> string \<Rightarrow> proxy_state \<Rightarrow> js_error + proxy_state" where
  "initializeDownstreamConnection cfg e downstreamServerName s =
     (case table_lookup cfg downstreamServerName of
        Absent \<Rightarrow> Inl (Error (''Transport config for '' @ downstreamServerName @ '' not found.''))
      | Inherited \<Rightarrow>
          (case downstream_connect e (trace s) None of
             Inl err \<Rightarrow> Inl err
           | Inr u \<Rightarrow> Inr (emit e DownstreamConnect s))
      | Own config \<Rightarrow>
          (case downstream_connect e (trace s) (Some config) of
             Inl err \<Rightarrow> Inl err
           | Inr u \<Rightarrow> Inr (emit e DownstreamConnect s)))"

definition getTools ::
  "(string \<rightharpoonup> MCPServerConfig) \<Rightarrow> runtime \<Rightarrow> string \<Rightarrow> proxy_state \<Rightarrow> json list \<times> proxy_state" where
  "getTools cfg e downstreamServerName s =
     (if table_lookup cfg downstreamServerName = Absent then ([], s)
      else
        (let s1 = emit e DownstreamListTools s
         in case downstream_listTools e (trace s) of
              Inr tools \<Rightarrow> (tools, s1)
            | Inl err \<Rightarrow> ([], s1)))"

definition checkStatusToolDefinition :: json where
  "checkStatusToolDefinition =
     JObj [(''name'', JStr ''check_task_status''),
           (''description'', JStr (''Checks the current approval status of a previously requested '' @
              ''high-risk task using its Task ID. Required for Human-In-The-Loop tasks.'')),
           (''inputSchema'',
              JObj [(''type'', JStr ''object''),
                    (''properties'',
                       JObj [(''taskId'',
                                JObj [(''type'', JStr ''string''),
                                      (''description'', JStr (''The unique Task ID returned in the '' @
                                         ''structured content of the pending tool call.''))])]),
                    (''required'', JArr [JStr ''taskId''])])]"

definition ListHighRiskToolDefinition :: json where
  "ListHighRiskToolDefinition =
     JObj [(''name'', JStr ''list_high_risk_tools''),
           (''description'', JStr (''Displays a list of '' @ [CHR 0x22] @ ''High Risk'' @ [CHR 0x22] @
              '' tools that require approval as part of Human-In-The-Loop tasks.'')),
           (''inputSchema'',
              JObj [(''type'', JStr ''object''),
                    (''properties'', JObj []),
                    (''required'', JArr [])])]"

text \<open>The handler of a list-tools request, also installed by \<^verbatim>\<open>setupToolHandlers\<close>.\<close>

definition handleListTools ::
  "(string \<rightharpoonup> MCPServerConfig) \<Rightarrow> runtime \<Rightarrow> string \<Rightarrow> proxy_state \<Rightarrow> json \<times> proxy_state" where
  "handleListTools cfg e downstreamServerName s =
     (let r = getTools cfg e downstreamServerName s
      in (JObj [(''tools'', JArr (fst r @ [checkStatusToolDefinition, ListHighRiskToolDefinition]))],
          snd r))"

section \<open>The process\<close>

text \<open>
  The end of the file: the server name is the first argument of the process, or
  \<^verbatim>\<open>MCPServer\<close>; \<^verbatim>\<open>HITLProxy.create\<close> builds the proxy and awaits
  \<^verbatim>\<open>initializeDownstreamConnection\<close>, then \<^verbatim>\<open>run\<close> connects the server to its transport,
  and only then are requests handled. A rejection of either step is logged and
  the process exits with code 1: \<open>Inl\<close> is that exit, with no request handled.
\<close>

definition MCPServername :: "string list \<Rightarrow> string" where
  "MCPServername argv = (if length argv > 2 then argv ! 2 else ''MCPServer'')"

datatype incoming = CallToolRequest request | ListToolsRequest

fun handle :: "(string \<rightharpoonup> MCPServerConfig) \<Rightarrow> runtime \<Rightarrow> string \<Rightarrow> incoming \<Rightarrow> proxy_state \<Rightarrow>
               (js_error + json) \<times> proxy_state" where
  "handle cfg e srv (CallToolRequest req) s = handleCallTool cfg e srv req s"
| "handle cfg e srv ListToolsRequest s =
     (let r = handleListTools cfg e srv s in (Inr (fst r), snd r))"

fun serve :: "(string \<rightharpoonup> MCPServerConfig) \<Rightarrow> runtime \<Rightarrow> string \<Rightarrow> incoming list \<Rightarrow> proxy_state \<Rightarrow>
              (js_error + json) list \<times> proxy_state" where
  "serve cfg e srv [] s = ([], s)"
| "serve cfg e srv (i # rest) s =
     (let r = handle cfg e srv i s; rs = serve cfg e srv rest (snd r)
      in (fst r # fst rs, snd rs))"

definition main ::
  "(string \<rightharpoonup> MCPServerConfig) \<Rightarrow> runtime \<Rightarrow> string list \<Rightarrow> incoming list \<Rightarrow> proxy_state \<Rightarrow>
   js_error + (js_error + json) list \<times> proxy_state" where
  "main cfg e argv requests s =
     (case initializeDownstreamConnection cfg e (MCPServername argv) s of
        Inl err \<Rightarrow> Inl err
      | Inr s1 \<Rightarrow>
          (case server_connect e (trace s1) of
             Inl err \<Rightarrow> Inl err
           | Inr u \<Rightarrow> Inr (serve cfg e (MCPServername argv) requests (emit e ServerConnect s1))))"

section \<open>Example runs\<close>

text \<open>
  Concrete environments and states, on which the theorems below are instantiated.
  In \<open>runtime_approving\<close> the channel accepts every request and reports approval, the
  downstream server answers every call, and no operation takes time.
\<close>

definition runtime_approving :: runtime where
  "runtime_approving =
     \<lparr>sendApprovalRequest = (\<lambda>tr a. Inr ''oob-1''),
      checkForApproval = (\<lambda>tr c. Inr ''APPROVED''),
      downstream_callTool = (\<lambda>tr n a. Inr [(''content'', text_content ''done'')]),
      downstream_listTools = (\<lambda>tr. Inr []),
      downstream_connect = (\<lambda>tr c. Inr ()),
      server_notification = (\<lambda>tr m. Inr ()),
      server_connect = (\<lambda>tr. Inr ()),
      Math_random_toString36 = (\<lambda>tr. ''0.abcdefgh''),
      latency = (\<lambda>tr ev. 0)\<rparr>"

definition access_denied :: js_error where
  "access_denied =
     \<lparr>error = Some ''access_denied'',
      error_description = Some ''The resource owner denied the request'',
      message = None\<rparr>"

definition runtime_denying :: runtime where
  "runtime_denying = runtime_approving\<lparr>checkForApproval := (\<lambda>tr c. Inl access_denied)\<rparr>"

definition runtime_downstream_failing :: runtime where
  "runtime_downstream_failing =
     runtime_approving\<lparr>downstream_callTool := (\<lambda>tr n a. Inl (Error ''Connection closed''))\<rparr>"

definition runtime_notification_failing :: runtime where
  "runtime_notification_failing =
     runtime_approving\<lparr>server_notification := (\<lambda>tr m. Inl (Error ''Not connected''))\<rparr>"

definition no_tasks :: "string \<rightharpoonup> task" where
  "no_tasks = Map.empty"

definition initial_state :: proxy_state where
  "initial_state = \<lparr>pendingTasks = no_tasks, trace = [], clock = 1700000000000\<rparr>"

definition title_x :: json where
  "title_x = JObj [(''title'', JStr ''x'')]"

definition title_y :: json where
  "title_y = JObj [(''title'', JStr ''y'')]"

definition add_todos_task :: "json \<Rightarrow> task" where
  "add_todos_task a =
     \<lparr>toolName = ''add_todos'', toolArgs = a, status = PENDING, hitlOobCode = Some ''oob-1''\<rparr>"

definition state_with_task :: proxy_state where
  "state_with_task =
     \<lparr>pendingTasks = no_tasks(''task-1700000000000-abcd'' \<mapsto> add_todos_task title_x),
      trace = [SendApprovalRequest approver], clock = 1700000000000\<rparr>"

definition check_request :: "json \<Rightarrow> request" where
  "check_request a = \<lparr>name = ''check_task_status'', arguments = a, meta = JUndefined\<rparr>"

text \<open>
  Two high-risk invocations in a row, within one millisecond and with random numbers
  that agree in their first four base-36 digits.
\<close>

definition first_call :: "(js_error + json) \<times> proxy_state" where
  "first_call =
     callTool (MCPServerMap ''secret'') runtime_approving ''todo-mcp-server'' ''add_todos''
       title_x JUndefined initial_state"

definition second_call :: "(js_error + json) \<times> proxy_state" where
  "second_call =
     callTool (MCPServerMap ''secret'') runtime_approving ''todo-mcp-server'' ''add_todos''
       title_y JUndefined (snd first_call)"

text \<open>\<^verbatim>\<open>Math.random()\<close> gives one half, which is \<^verbatim>\<open>0.i\<close> in base 36.\<close>

definition runtime_half :: runtime where
  "runtime_half = runtime_approving\<lparr>Math_random_toString36 := (\<lambda>tr. ''0.i'')\<rparr>"

definition live_task_request :: request where
  "live_task_request = check_request (JObj [(''taskId'', JStr ''task-1700000000000-abcd'')])"

definition unknown_task_request :: request where
  "unknown_task_request = check_request (JObj [(''taskId'', JStr ''task-1-zzzz'')])"


definition welcome_request :: request where
  "welcome_request = \<lparr>name = ''welcome_to_okta'', arguments = JUndefined, meta = JUndefined\<rparr>"

text \<open>A table in which one name is both blocked and high-risk.\<close>

definition overlapping_config :: MCPServerConfig where
  "overlapping_config =
     \<lparr>command = ''/usr/bin/node'', args = [], env = [],
      HighRiskTools = [''add_todos'', ''welcome_to_okta''],
      BlockedTools = [''welcome_to_okta'']\<rparr>"

definition overlapping_table :: "string \<rightharpoonup> MCPServerConfig" where
  "overlapping_table = [''todo-mcp-server'' \<mapsto> overlapping_config]"

section \<open>Basic facts\<close>

lemma table_lookup_own: "cfg srv = Some config \<Longrightarrow> table_lookup cfg srv = Own config"
  by (simp add: table_lookup_def)

lemma timer_progress_notification [simp]: "timer (progress_notification tok) = 0"
  by (simp add: progress_notification_def)

lemma emit_simps [simp]:
  "pendingTasks (emit e ev s) = pendingTasks s"
  "trace (emit e ev s) = trace s @ [ev]"
  "clock (emit e ev s) = clock s + timer ev + latency e (trace s) ev"
  by (simp_all add: emit_def)

lemma delete_task_simps [simp]:
  "pendingTasks (delete_task taskId s) = (pendingTasks s)(taskId := None)"
  "trace (delete_task taskId s) = trace s"
  "clock (delete_task taskId s) = clock s"
  by (simp_all add: delete_task_def)

lemma set_task_simps [simp]:
  "pendingTasks (set_task taskId t s) = (pendingTasks s)(taskId \<mapsto> t)"
  "trace (set_task taskId t s) = trace s"
  "clock (set_task taskId t s) = clock s"
  by (simp_all add: set_task_def)

lemma status_not_found [simp]:
  "get_prop (get_prop (not_found_payload t) ''structuredContent'') ''status'' = JUndefined"
  by (simp add: not_found_payload_def)

lemma nullish_not_found [simp]: "nullish_or (not_found_payload t) b = not_found_payload t"
  by (simp add: not_found_payload_def)

lemma handleTaskStatusCheck_absent:
  "pendingTasks s taskId = None \<Longrightarrow>
   handleTaskStatusCheck e taskId s = (not_found_payload taskId, s)"
  by (simp add: handleTaskStatusCheck_def)

text \<open>
  Polling a task that is not live: every round finds nothing and sleeps, until the
  window has passed.
\<close>

lemma poll_loop_absent:
  "pendingTasks s taskId = None \<Longrightarrow>
     fst (poll_loop e taskId startTime lastresult s) =
       (if clock s < startTime + 10000 then not_found_payload taskId else lastresult)
   \<and> pendingTasks (snd (poll_loop e taskId startTime lastresult s)) = pendingTasks s
   \<and> (\<exists>n. trace (snd (poll_loop e taskId startTime lastresult s)) =
             trace s @ replicate n (Sleep 4000))"
proof (induction e taskId startTime lastresult s rule: poll_loop.induct)
  case (1 e taskId startTime lastresult s)
  show ?case
  proof (cases "clock s < startTime + 10000")
    case False
    then show ?thesis by (simp add: poll_loop.simps [of e taskId startTime lastresult s])
  next
    case True
    let ?s1 = "emit e (Sleep 4000) s"
    let ?next = "poll_loop e taskId startTime (not_found_payload taskId) ?s1"
    have step: "poll_loop e taskId startTime lastresult s = ?next"
      using True 1(2)
      by (simp add: poll_loop.simps [of e taskId startTime lastresult s]
                    handleTaskStatusCheck_absent)
    have ih: "fst ?next = not_found_payload taskId
            \<and> pendingTasks (snd ?next) = pendingTasks ?s1
            \<and> (\<exists>n. trace (snd ?next) = trace ?s1 @ replicate n (Sleep 4000))"
      using 1(1) [OF True refl refl refl refl] 1(2)
      by (simp add: handleTaskStatusCheck_absent)
    then obtain n where "trace (snd ?next) = trace ?s1 @ replicate n (Sleep 4000)"
      by blast
    then have "trace (snd (poll_loop e taskId startTime lastresult s)) =
               trace s @ replicate (Suc n) (Sleep 4000)"
      using step by simp
    then have "\<exists>n. trace (snd (poll_loop e taskId startTime lastresult s)) =
                   trace s @ replicate n (Sleep 4000)"
      by blast
    with ih step True show ?thesis by simp
  qed
qed

lemma map_of_obj_set: "map_of (obj_set k v al) k = Some v"
  by (induction al) auto

lemma completed_status:
  "get_prop (get_prop (completed_payload r n) ''structuredContent'') ''status'' = JStr ''COMPLETED''
   \<and> get_prop (get_prop (completed_payload r n) ''structuredContent'') ''tool'' = JStr n"
  by (simp add: completed_payload_def map_of_obj_set)

lemma failed_status [simp]:
  "get_prop (get_prop (failed_payload t err) ''structuredContent'') ''status'' = JUndefined"
  "get_prop (failed_payload t err) ''isError'' = JBool True"
  by (simp_all add: failed_payload_def)

lemma nullish_failed [simp]: "nullish_or (failed_payload t err) b = failed_payload t err"
  by (simp add: failed_payload_def)

lemma still_pending_status [simp]:
  "get_prop (get_prop (still_pending_payload t n) ''structuredContent'') ''status'' = JStr ''PENDING''"
  by (simp add: still_pending_payload_def)

lemma nullish_still_pending [simp]:
  "nullish_or (still_pending_payload t n) b = still_pending_payload t n"
  by (simp add: still_pending_payload_def)

text \<open>The query of a live task that the channel reports approved.\<close>

lemma handleTaskStatusCheck_approved:
  assumes "pendingTasks s taskId = Some t" and "hitlOobCode t = Some oobCode" and "oobCode \<noteq> []"
      and "checkForApproval e (trace s) oobCode = Inr ''APPROVED''"
  shows "handleTaskStatusCheck e taskId s =
           (case downstream_callTool e (trace s @ [CheckForApproval oobCode])
                   (toolName t) (toolArgs t) of
              Inl err \<Rightarrow> failed_payload taskId err
            | Inr r \<Rightarrow> completed_payload r (toolName t),
            delete_task taskId (emit e (DownstreamCallTool (toolName t) (toolArgs t))
                                  (emit e (CheckForApproval oobCode) s)))"
  using assms by (simp add: handleTaskStatusCheck_def Let_def split: sum.splits)

text \<open>The query of a live task on which the channel fails.\<close>

lemma handleTaskStatusCheck_denied:
  assumes "pendingTasks s taskId = Some t" and "hitlOobCode t = Some oobCode" and "oobCode \<noteq> []"
      and "checkForApproval e (trace s) oobCode = Inl err"
  shows "handleTaskStatusCheck e taskId s =
           (failed_payload taskId err, delete_task taskId (emit e (CheckForApproval oobCode) s))"
  using assms by (simp add: handleTaskStatusCheck_def Let_def)

text \<open>The query of a live task on which the channel answers anything but approval.\<close>

lemma handleTaskStatusCheck_waiting:
  assumes "pendingTasks s taskId = Some t" and "hitlOobCode t = Some oobCode" and "oobCode \<noteq> []"
      and "checkForApproval e (trace s) oobCode = Inr answer" and "answer \<noteq> ''APPROVED''"
  shows "handleTaskStatusCheck e taskId s =
           (still_pending_payload taskId (toolName t), emit e (CheckForApproval oobCode) s)"
  using assms by (simp add: handleTaskStatusCheck_def Let_def)

text \<open>A downstream call in the events of a query is the call of an approved task.\<close>

lemma handleTaskStatusCheck_downstream_only_approved:
  assumes "DownstreamCallTool n a \<in>
             set (drop (length (trace s)) (trace (snd (handleTaskStatusCheck e taskId s))))"
  shows "\<exists>t c. pendingTasks s taskId = Some t \<and> hitlOobCode t = Some c
            \<and> checkForApproval e (trace s) c = Inr ''APPROVED''
            \<and> n = toolName t \<and> a = toolArgs t"
  using assms
  by (auto simp: handleTaskStatusCheck_def Let_def split: option.splits sum.splits if_splits)

text \<open>Creating a task, or refusing a blocked tool, calls no downstream tool.\<close>

lemma callTool_gated_no_downstream:
  assumes "cfg srv = Some config"
      and "tool \<in> set (BlockedTools config) \<or> tool \<in> set (HighRiskTools config)"
  shows "DownstreamCallTool n a \<notin>
           set (drop (length (trace s)) (trace (snd (callTool cfg e srv tool toolargs tok s))))"
  using assms
  by (auto simp: callTool_def table_lookup_own Let_def progress_notification_def
           split: sum.splits if_splits)

text \<open>A tool that is neither blocked nor high-risk is forwarded once.\<close>

lemma callTool_normal:
  assumes "cfg srv = Some config"
      and "tool \<notin> set (BlockedTools config)" and "tool \<notin> set (HighRiskTools config)"
  shows "callTool cfg e srv tool toolargs tok s =
           (case downstream_callTool e (trace s) tool toolargs of
              Inr toolsResult \<Rightarrow> Inr (JObj toolsResult)
            | Inl err \<Rightarrow> Inr JNull,
            emit e (DownstreamCallTool tool toolargs) s)"
  using assms by (simp add: callTool_def table_lookup_own Let_def split: sum.splits)

text \<open>
  The polling loop on a live task whose query fails while, after the wait that
  follows, the window is still open: the next round finds the task gone, and the
  loop returns the not-found payload.
\<close>

lemma poll_loop_denied_early:
  assumes "pendingTasks s taskId = Some t" and "hitlOobCode t = Some oobCode" and "oobCode \<noteq> []"
      and "checkForApproval e (trace s) oobCode = Inl err"
      and "clock s < startTime + 10000"
      and "clock (emit e (Sleep 4000) (emit e (CheckForApproval oobCode) s)) < startTime + 10000"
  shows "fst (poll_loop e taskId startTime lastresult s) = not_found_payload taskId"
proof -
  let ?s1 = "emit e (Sleep 4000) (delete_task taskId (emit e (CheckForApproval oobCode) s))"
  have step: "poll_loop e taskId startTime lastresult s =
              poll_loop e taskId startTime (failed_payload taskId err) ?s1"
    using assms(5)
    by (simp add: poll_loop.simps [of e taskId startTime lastresult s]
                  handleTaskStatusCheck_denied [OF assms(1-4)])
  have gone: "pendingTasks ?s1 taskId = None" by simp
  have "clock ?s1 < startTime + 10000" using assms(6) by simp
  then show ?thesis
    using poll_loop_absent [OF gone, of e startTime "failed_payload taskId err"] step by simp
qed

text \<open>
  The polling loop on a live task for which the channel never answers with approval
  or failure: it ends, returns the last pending observation, and the task stays live.
\<close>

lemma poll_loop_still_pending:
  assumes "pendingTasks s taskId = Some t" and "hitlOobCode t = Some oobCode" and "oobCode \<noteq> []"
      and "\<forall>tr. \<exists>answer. checkForApproval e tr oobCode = Inr answer \<and> answer \<noteq> ''APPROVED''"
  shows "fst (poll_loop e taskId startTime lastresult s) =
           (if clock s < startTime + 10000 then still_pending_payload taskId (toolName t)
            else lastresult)
       \<and> pendingTasks (snd (poll_loop e taskId startTime lastresult s)) = pendingTasks s"
  using assms
proof (induction e taskId startTime lastresult s rule: poll_loop.induct)
  case (1 e taskId startTime lastresult s)
  show ?case
  proof (cases "clock s < startTime + 10000")
    case False
    then show ?thesis by (simp add: poll_loop.simps [of e taskId startTime lastresult s])
  next
    case True
    obtain answer where a: "checkForApproval e (trace s) oobCode = Inr answer"
        "answer \<noteq> ''APPROVED''"
      using 1(5) by blast
    note q = handleTaskStatusCheck_waiting [OF 1(2) 1(3) 1(4) a]
    let ?s1 = "emit e (Sleep 4000) (emit e (CheckForApproval oobCode) s)"
    let ?next = "poll_loop e taskId startTime (still_pending_payload taskId (toolName t)) ?s1"
    have step: "poll_loop e taskId startTime lastresult s = ?next"
      using True by (simp add: poll_loop.simps [of e taskId startTime lastresult s] q)
    have live: "pendingTasks ?s1 taskId = Some t" using 1(2) by simp
    have ih: "fst ?next = still_pending_payload taskId (toolName t)
            \<and> pendingTasks (snd ?next) = pendingTasks ?s1"
      using 1(1) [OF True refl refl refl refl] 1(2) 1(3) 1(4) 1(5) by (simp add: q)
    with step True show ?thesis by simp
  qed
qed

text \<open>A request for any tool but the two synthetic ones is handed to \<^verbatim>\<open>callTool\<close>.\<close>

lemma handleCallTool_delegates:
  "name req \<noteq> ''check_task_status'' \<Longrightarrow> name req \<noteq> ''list_high_risk_tools'' \<Longrightarrow>
   handleCallTool cfg e srv req s =
     callTool cfg e srv (name req) (arguments req) (get_prop (meta req) ''progressToken'') s"
  by (simp add: handleCallTool_def Let_def)

text \<open>
  A server name that is not a key of the table but names an inherited property is
  not absent for the read: the start goes on to the connection, with no entry to
  launch, and the process exits when that is rejected.
\<close>

lemma main_inherited_connect_rejected:
  assumes "table_lookup cfg (MCPServername argv) = Inherited"
      and "downstream_connect e (trace s) None = Inl err"
  shows "main cfg e argv requests s = Inl err"
  using assms by (simp add: main_def initializeDownstreamConnection_def)

text \<open>Requests are handled only under a server name for which the read gives a value.\<close>

lemma main_serves_only_found:
  "main cfg e argv requests s = Inr out \<Longrightarrow> table_lookup cfg (MCPServername argv) \<noteq> Absent"
  by (auto simp: main_def initializeDownstreamConnection_def split: table_entry.splits)

subsection \<open>Decimal digits and task identifiers\<close>

lemma digit_char_is_digit: "d < 10 \<Longrightarrow> is_digit (digit_char d)"
  by (simp add: digit_char_def is_digit_def del: set_simps)

lemma digit_char_inj: "d < 10 \<Longrightarrow> d' < 10 \<Longrightarrow> digit_char d = digit_char d' \<Longrightarrow> d = d'"
proof -
  assume a: "d < 10" "d' < 10" "digit_char d = digit_char d'"
  have "distinct ''0123456789''" by simp
  then show ?thesis using a nth_eq_iff_index_eq [of "''0123456789''" d d']
    by (simp add: digit_char_def)
qed

lemma show_nat_digits: "list_all is_digit (show_nat n)"
proof (induction n rule: show_nat.induct)
  case (1 n)
  show ?case
  proof (cases "n < 10")
    case True
    then show ?thesis by (simp add: show_nat.simps [of n] digit_char_is_digit)
  next
    case False
    then show ?thesis using 1 by (simp add: show_nat.simps [of n] digit_char_is_digit)
  qed
qed

lemma show_nat_nonempty: "show_nat n \<noteq> []"
  by (simp add: show_nat.simps [of n])

lemma show_nat_length: "\<not> n < 10 \<Longrightarrow> 2 \<le> length (show_nat n)"
  using show_nat_nonempty [of "n div 10"]
  by (cases "show_nat (n div 10)") (simp_all add: show_nat.simps [of n])

text \<open>Different clock readings have different decimal renderings.\<close>

lemma show_nat_inj: "show_nat a = show_nat b \<Longrightarrow> a = b"
proof (induction a arbitrary: b rule: show_nat.induct)
  case (1 a)
  show ?case
  proof (cases "a < 10")
    case True
    then have la: "show_nat a = [digit_char a]" by (simp add: show_nat.simps [of a])
    have "b < 10"
    proof (rule ccontr)
      assume "\<not> b < 10"
      then have "2 \<le> length (show_nat b)" by (rule show_nat_length)
      moreover have "length (show_nat b) = 1"
        using 1(2) la by (metis length_Cons list.size(3) One_nat_def)
      ultimately show False by simp
    qed
    then show ?thesis using True 1(2) la digit_char_inj [of a b]
      by (simp add: show_nat.simps [of b])
  next
    case False
    then have la: "show_nat a = show_nat (a div 10) @ [digit_char (a mod 10)]"
      by (simp add: show_nat.simps [of a])
    have nb: "\<not> b < 10"
    proof
      assume "b < 10"
      then have "length (show_nat b) = 1" by (simp add: show_nat.simps [of b])
      then show False using show_nat_length [OF False] 1(2) by simp
    qed
    then have lb: "show_nat b = show_nat (b div 10) @ [digit_char (b mod 10)]"
      by (simp add: show_nat.simps [of b])
    from 1(2) la lb have e1: "show_nat (a div 10) = show_nat (b div 10)"
      and e2: "digit_char (a mod 10) = digit_char (b mod 10)" by simp_all
    have "a div 10 = b div 10" using 1(1) [OF False e1] .
    moreover have "a mod 10 = b mod 10" using digit_char_inj [OF _ _ e2] by simp
    ultimately show ?thesis by (metis div_mult_mod_eq)
  qed
qed

lemma split_at_separator:
  "c \<notin> set xs \<Longrightarrow> c \<notin> set xs' \<Longrightarrow> xs @ c # ys = xs' @ c # ys' \<Longrightarrow> xs = xs' \<and> ys = ys'"
proof (induction xs arbitrary: xs')
  case Nil
  then show ?case by (cases xs') auto
next
  case (Cons x xs)
  then show ?case by (cases xs') auto
qed

lemma substring_2_6: "substring rnd 2 6 = take 4 (drop 2 rnd)"
  by (auto simp: substring_def Let_def min_def max_def)

lemma dash_not_digit: "CHR ''-'' \<notin> set (show_nat n)"
proof
  assume "CHR ''-'' \<in> set (show_nat n)"
  then have "is_digit CHR ''-''"
    using show_nat_digits [of n] unfolding list_all_iff by blast
  then show False by (simp add: is_digit_def)
qed

lemma genTaskId_eq_iff:
  "genTaskId now rnd = genTaskId now' rnd' \<longleftrightarrow>
     now = now' \<and> take 4 (drop 2 rnd) = take 4 (drop 2 rnd')"
  using split_at_separator [OF dash_not_digit dash_not_digit,
          of now "take 4 (drop 2 rnd)" now' "take 4 (drop 2 rnd')"]
  by (auto simp: genTaskId_def substring_2_6 dest: show_nat_inj)

lemma genTaskId_format:
  assumes "6 \<le> length rnd" and "list_all is_alnum (take 4 (drop 2 rnd))"
  shows "task_id_format (genTaskId now rnd)"
proof -
  have nd: "\<not> is_digit CHR ''-''" by (simp add: is_digit_def)
  have d: "\<forall>c\<in>set (show_nat now). is_digit c"
    using show_nat_digits [of now] by (simp add: list_all_iff)
  have tw: "takeWhile is_digit (show_nat now @ CHR ''-'' # take 4 (drop 2 rnd)) = show_nat now"
    using d nd by (simp add: takeWhile_append2)
  have dw: "dropWhile is_digit (show_nat now @ CHR ''-'' # take 4 (drop 2 rnd)) =
            CHR ''-'' # take 4 (drop 2 rnd)"
    using d nd by (simp add: dropWhile_append2)
  show ?thesis
    using assms tw dw show_nat_nonempty [of now]
    by (simp add: task_id_format_def genTaskId_def substring_2_6 Let_def)
qed

lemma show_nat_example: "show_nat 1700000000000 = ''1700000000000''"
  by (simp add: show_nat.simps digit_char_def)

lemma genTaskId_example: "genTaskId 1700000000000 ''0.abcdefgh'' = ''task-1700000000000-abcd''"
  by (simp add: genTaskId_def substring_def show_nat_example)

lemma first_call_eq:
  "first_call =
     (Inr (pending_poll_payload ''add_todos'' ''task-1700000000000-abcd''),
      \<lparr>pendingTasks = no_tasks(''task-1700000000000-abcd'' \<mapsto> add_todos_task title_x),
       trace = [SendApprovalRequest approver], clock = 1700000000000\<rparr>)"
  by (simp add: first_call_def callTool_def table_lookup_def MCPServerMap_def todo_config_def
        runtime_approving_def
        initial_state_def genTaskId_example emit_def set_task_def add_todos_task_def Let_def)

lemma second_call_eq:
  "second_call =
     (Inr (pending_poll_payload ''add_todos'' ''task-1700000000000-abcd''),
      \<lparr>pendingTasks = no_tasks(''task-1700000000000-abcd'' \<mapsto> add_todos_task title_y),
       trace = [SendApprovalRequest approver, SendApprovalRequest approver], clock = 1700000000000\<rparr>)"
  by (simp add: second_call_def first_call_eq callTool_def table_lookup_def MCPServerMap_def
        todo_config_def runtime_approving_def
        genTaskId_example emit_def set_task_def add_todos_task_def Let_def)

lemma taskId_of_pending_poll_payload:
  "get_prop (get_prop (pending_poll_payload tool taskId) ''structuredContent'') ''taskId'' = JStr taskId
   \<and> get_prop (get_prop (pending_poll_payload tool taskId) ''structuredContent'') ''status'' =
       JStr ''PENDING_APPROVAL_POLL''"
  by (simp add: pending_poll_payload_def)

section \<open>Blocked tools\<close>

text \<open>
  C4. A tool whose name is in \<^verbatim>\<open>BlockedTools\<close> of the configured server gets a payload
  with \<^verbatim>\<open>isError\<close> true, and the state is left as it was: no task is created and the
  trace gains no event, so neither the downstream server nor the approval channel is
  contacted. Nothing is assumed about \<^verbatim>\<open>HighRiskTools\<close>: the blocklist is tested first.
  A call-tool request for that name gets the same, the two synthetic tool names
  apart, which the handler serves before it looks at the lists.
\<close>

theorem callTool_blocked:
  assumes "cfg srv = Some config" and "tool \<in> set (BlockedTools config)"
  shows "callTool cfg e srv tool toolargs progressToken s = (Inr (blocked_payload tool), s)
       \<and> get_prop (blocked_payload tool) ''isError'' = JBool True
       \<and> (name req = tool \<and> tool \<noteq> ''check_task_status'' \<and> tool \<noteq> ''list_high_risk_tools'' \<longrightarrow>
            handleCallTool cfg e srv req s = (Inr (blocked_payload tool), s))"
  using assms
  by (simp add: handleCallTool_delegates)
     (simp add: callTool_def table_lookup_own blocked_payload_def)

text \<open>
  C4, at a name that is both blocked and high-risk, and on the source's table: the
  blocked payload, and the state untouched.
\<close>

theorem callTool_blocked_witness:
  "overlapping_table ''todo-mcp-server'' = Some overlapping_config
   \<and> ''welcome_to_okta'' \<in> set (BlockedTools overlapping_config)
   \<and> ''welcome_to_okta'' \<in> set (HighRiskTools overlapping_config)
   \<and> callTool overlapping_table runtime_approving ''todo-mcp-server''
        ''welcome_to_okta'' title_x (JStr ''tok'') initial_state =
       (Inr (blocked_payload ''welcome_to_okta''), initial_state)
   \<and> get_prop (blocked_payload ''welcome_to_okta'') ''isError'' = JBool True
   \<and> name welcome_request = ''welcome_to_okta''
   \<and> handleCallTool (MCPServerMap ''secret'') runtime_approving ''todo-mcp-server''
        welcome_request initial_state = (Inr (blocked_payload ''welcome_to_okta''), initial_state)"
proof -
  have c: "overlapping_table ''todo-mcp-server'' = Some overlapping_config"
    by (simp add: overlapping_table_def)
  have b: "''welcome_to_okta'' \<in> set (BlockedTools overlapping_config)"
    by (simp add: overlapping_config_def)
  have h: "''welcome_to_okta'' \<in> set (HighRiskTools overlapping_config)"
    by (simp add: overlapping_config_def)
  have c': "MCPServerMap ''secret'' ''todo-mcp-server'' = Some (todo_config ''secret'')"
    by (simp add: MCPServerMap_def)
  have b': "''welcome_to_okta'' \<in> set (BlockedTools (todo_config ''secret''))"
    by (simp add: todo_config_def)
  have n: "name welcome_request = ''welcome_to_okta''"
    by (simp add: welcome_request_def)
  have 1: "callTool overlapping_table runtime_approving ''todo-mcp-server''
             ''welcome_to_okta'' title_x (JStr ''tok'') initial_state =
           (Inr (blocked_payload ''welcome_to_okta''), initial_state)
         \<and> get_prop (blocked_payload ''welcome_to_okta'') ''isError'' = JBool True"
    using callTool_blocked [where cfg = overlapping_table and srv = "''todo-mcp-server''", OF c b]
    by blast
  have 2: "handleCallTool (MCPServerMap ''secret'') runtime_approving ''todo-mcp-server''
             welcome_request initial_state = (Inr (blocked_payload ''welcome_to_okta''), initial_state)"
    using n callTool_blocked [where cfg = "MCPServerMap ''secret''" and srv = "''todo-mcp-server''"
            and req = welcome_request, OF c' b']
    by simp
  show ?thesis using c b h n 1 2 by blast
qed

section \<open>Status checks on unknown tasks and on bad arguments\<close>

text \<open>
  C6. For a taskId that is not in the live task set, \<^verbatim>\<open>handleTaskStatusCheck\<close> returns
  the not-found payload and leaves the state as it was; and the \<^verbatim>\<open>check_task_status\<close>
  request as a whole returns the not-found payload to the caller, leaves the live task
  set unchanged, and adds nothing to the trace but timer waits: the approval channel
  is never queried.
\<close>

theorem check_unknown_task_not_found:
  assumes "pendingTasks s taskId = None"
      and "name req = ''check_task_status''"
      and "get_prop (arguments req) ''taskId'' = JStr taskId"
  shows "handleTaskStatusCheck e taskId s = (not_found_payload taskId, s)
       \<and> fst (handleCallTool cfg e srv req s) = Inr (not_found_payload taskId)
       \<and> pendingTasks (snd (handleCallTool cfg e srv req s)) = pendingTasks s
       \<and> (\<exists>n. trace (snd (handleCallTool cfg e srv req s)) = trace s @ replicate n (Sleep 4000))"
proof -
  have tr: "truthy (arguments req)"
    using assms(3) by (cases "arguments req") simp_all
  have h: "handleCallTool cfg e srv req s =
           (Inr (fst (poll_loop e taskId (clock s) JUndefined s)),
            snd (poll_loop e taskId (clock s) JUndefined s))"
    using assms(2,3) tr by (simp add: handleCallTool_def Let_def)
  show ?thesis
    using poll_loop_absent [OF assms(1), of e "clock s" JUndefined]
          handleTaskStatusCheck_absent [OF assms(1), of e]
    by (simp add: h)
qed

text \<open>
  C6 on the empty task set: the request takes three rounds of four seconds and
  returns the not-found payload.
\<close>

theorem check_unknown_task_not_found_witness:
  "pendingTasks initial_state ''task-1-zzzz'' = None
   \<and> name (check_request (JObj [(''taskId'', JStr ''task-1-zzzz'')])) = ''check_task_status''
   \<and> handleTaskStatusCheck runtime_approving ''task-1-zzzz'' initial_state =
       (not_found_payload ''task-1-zzzz'', initial_state)
   \<and> fst (handleCallTool (MCPServerMap ''secret'') runtime_approving ''todo-mcp-server''
             (check_request (JObj [(''taskId'', JStr ''task-1-zzzz'')])) initial_state) =
       Inr (not_found_payload ''task-1-zzzz'')
   \<and> pendingTasks (snd (handleCallTool (MCPServerMap ''secret'') runtime_approving
             ''todo-mcp-server''
             (check_request (JObj [(''taskId'', JStr ''task-1-zzzz'')])) initial_state)) = no_tasks"
proof -
  have a: "pendingTasks initial_state ''task-1-zzzz'' = None"
    by (simp add: initial_state_def no_tasks_def)
  have n: "name (check_request (JObj [(''taskId'', JStr ''task-1-zzzz'')])) = ''check_task_status''"
    by (simp add: check_request_def)
  have t: "get_prop (arguments (check_request (JObj [(''taskId'', JStr ''task-1-zzzz'')]))) ''taskId'' =
           JStr ''task-1-zzzz''"
    by (simp add: check_request_def)
  have p: "pendingTasks initial_state = no_tasks"
    by (simp add: initial_state_def)
  show ?thesis
    using a n p
      check_unknown_task_not_found [OF a n t, of runtime_approving "MCPServerMap ''secret''"
        "''todo-mcp-server''"]
    by simp
qed

text \<open>
  C10. A \<^verbatim>\<open>check_task_status\<close> request whose arguments are absent (or otherwise
  falsy), or whose \<^verbatim>\<open>taskId\<close> is not a string, gets the error text at once and the
  state is left as it was: no round of the polling loop runs, so nothing is asked
  of the approval channel or of the downstream server and no task changes. The
  payload has neither \<^verbatim>\<open>isError\<close> nor \<^verbatim>\<open>structuredContent\<close>.
\<close>

theorem check_task_status_bad_arguments:
  assumes "name req = ''check_task_status''"
      and "\<not> truthy (arguments req) \<or> \<not> is_string (get_prop (arguments req) ''taskId'')"
  shows "handleCallTool cfg e srv req s = (Inr bad_taskId_payload, s)
       \<and> get_prop bad_taskId_payload ''isError'' = JUndefined
       \<and> get_prop bad_taskId_payload ''structuredContent'' = JUndefined"
  using assms
  by (cases "get_prop (arguments req) ''taskId''")
     (simp_all add: handleCallTool_def bad_taskId_payload_def)

text \<open>C10 with absent arguments and with a numeric \<^verbatim>\<open>taskId\<close>.\<close>

theorem check_task_status_bad_arguments_witness:
  "name (check_request JUndefined) = ''check_task_status''
   \<and> \<not> truthy (arguments (check_request JUndefined))
   \<and> handleCallTool (MCPServerMap ''secret'') runtime_approving ''todo-mcp-server''
        (check_request JUndefined) state_with_task = (Inr bad_taskId_payload, state_with_task)
   \<and> \<not> is_string (get_prop (arguments (check_request (JObj [(''taskId'', JNum 7)]))) ''taskId'')
   \<and> handleCallTool (MCPServerMap ''secret'') runtime_approving ''todo-mcp-server''
        (check_request (JObj [(''taskId'', JNum 7)])) state_with_task =
        (Inr bad_taskId_payload, state_with_task)"
proof -
  have n: "name (check_request a) = ''check_task_status''" for a
    by (simp add: check_request_def)
  have u: "\<not> truthy (arguments (check_request JUndefined))"
    by (simp add: check_request_def)
  have k: "\<not> is_string (get_prop (arguments (check_request (JObj [(''taskId'', JNum 7)]))) ''taskId'')"
    by (simp add: check_request_def)
  show ?thesis
    using n u k
      check_task_status_bad_arguments [OF n disjI1 [OF u], of "MCPServerMap ''secret''"
        runtime_approving "''todo-mcp-server''" state_with_task]
      check_task_status_bad_arguments [OF n disjI2 [OF k], of "MCPServerMap ''secret''"
        runtime_approving "''todo-mcp-server''" state_with_task]
    by simp
qed

section \<open>Task identifiers\<close>

text \<open>
  C7, as stated, fails. Two high-risk invocations that read the same millisecond and
  draw random numbers with the same first four base-36 digits get the same taskId
  (\<open>first_call\<close> and \<open>second_call\<close>); and when \<^verbatim>\<open>Math.random()\<close> is one half, the
  taskId ends in one character, not four.
\<close>

theorem taskId_not_unique_counterexample:
  "fst first_call = Inr (pending_poll_payload ''add_todos'' ''task-1700000000000-abcd'')
   \<and> fst second_call = Inr (pending_poll_payload ''add_todos'' ''task-1700000000000-abcd'')
   \<and> get_prop (get_prop (pending_poll_payload ''add_todos'' ''task-1700000000000-abcd'')
                 ''structuredContent'') ''taskId'' = JStr ''task-1700000000000-abcd''
   \<and> genTaskId 1700000000000 (Math_random_toString36 runtime_half []) = ''task-1700000000000-i''
   \<and> \<not> task_id_format (genTaskId 1700000000000 (Math_random_toString36 runtime_half []))"
  by (simp add: first_call_eq second_call_eq taskId_of_pending_poll_payload runtime_half_def
        runtime_approving_def genTaskId_def substring_def show_nat_example
        task_id_format_def is_digit_def Let_def)

text \<open>
  C7, amended. A taskId is \<^verbatim>\<open>task-\<close>, the decimal digits of the clock reading, a dash,
  and the characters at positions 2 to 5 of \<^verbatim>\<open>Math.random().toString(36)\<close>: at most four
  of them. It has the specification's format when that rendering has at least six
  characters and those four are letters or digits. Two taskIds are equal exactly
  when the clock readings are equal and those characters are equal.
\<close>

theorem genTaskId_shape:
  "genTaskId now rnd = ''task-'' @ show_nat now @ ''-'' @ take 4 (drop 2 rnd)
   \<and> show_nat now \<noteq> [] \<and> list_all is_digit (show_nat now)
   \<and> length (take 4 (drop 2 rnd)) \<le> 4
   \<and> (6 \<le> length rnd \<and> list_all is_alnum (take 4 (drop 2 rnd)) \<longrightarrow>
        task_id_format (genTaskId now rnd))
   \<and> (genTaskId now rnd = genTaskId now' rnd' \<longleftrightarrow>
        now = now' \<and> take 4 (drop 2 rnd) = take 4 (drop 2 rnd'))"
proof -
  have "genTaskId now rnd = ''task-'' @ show_nat now @ ''-'' @ take 4 (drop 2 rnd)"
    by (simp add: genTaskId_def substring_2_6)
  moreover have "length (take 4 (drop 2 rnd)) \<le> 4" by simp
  ultimately show ?thesis
    using show_nat_nonempty [of now] show_nat_digits [of now]
      genTaskId_format [of rnd now] genTaskId_eq_iff [of now rnd now' rnd']
    by blast
qed

text \<open>
  C7, amended, at two clock readings one millisecond apart, with the rendering \<^verbatim>\<open>0.abcdefgh\<close>: the format
  holds and the two taskIds differ.
\<close>

theorem genTaskId_shape_witness:
  "6 \<le> length ''0.abcdefgh'' \<and> list_all is_alnum (take 4 (drop 2 ''0.abcdefgh''))
   \<and> task_id_format (genTaskId 1700000000000 ''0.abcdefgh'')
   \<and> genTaskId 1700000000000 ''0.abcdefgh'' \<noteq> genTaskId 1700000000001 ''0.abcdefgh''"
proof -
  have l: "6 \<le> length ''0.abcdefgh''" by simp
  have a: "list_all is_alnum (take 4 (drop 2 ''0.abcdefgh''))" by (simp add: is_alnum_def)
  have n: "(1700000000000::nat) \<noteq> 1700000000001" by simp
  show ?thesis
    using l a n genTaskId_shape [of 1700000000000 "''0.abcdefgh''" 1700000000001 "''0.abcdefgh''"]
    by blast
qed

section \<open>High-risk tools\<close>

text \<open>
  C2, as stated, fails, in two ways. \<open>second_call\<close> is a high-risk invocation that
  the channel accepts, yet it adds no task to the live set: its taskId is the one of
  the task that \<open>first_call\<close> made, and it overwrites that task, whose arguments are
  lost. And an invocation with a progress token whose notification is rejected is
  itself rejected, after the task has been stored: the caller gets no pending
  payload.
\<close>

theorem high_risk_call_overwrites_counterexample:
  "pendingTasks (snd first_call) = no_tasks(''task-1700000000000-abcd'' \<mapsto> add_todos_task title_x)
   \<and> sendApprovalRequest runtime_approving (trace (snd first_call)) approver = Inr ''oob-1''
   \<and> fst second_call = Inr (pending_poll_payload ''add_todos'' ''task-1700000000000-abcd'')
   \<and> pendingTasks (snd second_call) = no_tasks(''task-1700000000000-abcd'' \<mapsto> add_todos_task title_y)
   \<and> sendApprovalRequest runtime_notification_failing (trace initial_state) approver = Inr ''oob-1''
   \<and> callTool (MCPServerMap ''secret'') runtime_notification_failing ''todo-mcp-server''
        ''add_todos'' title_x (JStr ''tok'') initial_state =
       (Inl (Error ''Not connected''),
        \<lparr>pendingTasks = no_tasks(''task-1700000000000-abcd'' \<mapsto> add_todos_task title_x),
         trace = [SendApprovalRequest approver, progress_notification (JStr ''tok'')],
         clock = 1700000000000\<rparr>)"
  by (simp add: first_call_eq second_call_eq runtime_approving_def)
     (simp add: callTool_def table_lookup_def MCPServerMap_def todo_config_def
        runtime_notification_failing_def runtime_approving_def initial_state_def
        genTaskId_example emit_def set_task_def add_todos_task_def Let_def)

text \<open>
  C2, amended. When a tool is high-risk and not blocked, the channel accepts the
  approval request and, if the request carries a truthy progress token, the
  progress notification is sent without rejection, the invocation returns the
  pending payload, whose status is \<^verbatim>\<open>PENDING_APPROVAL_POLL\<close> and whose taskId is the
  generated one; the task map gets, at that taskId, a \<^verbatim>\<open>PENDING\<close> task with the given
  name and arguments and the code the channel returned, and is otherwise unchanged;
  the trace gains the approval request and, with a truthy progress token, one
  progress notification, so no downstream call is made and the payload does not
  depend on the downstream server. When the generated taskId was not live before,
  the live set grows by exactly that taskId.
\<close>

theorem high_risk_call_creates_pending_task:
  assumes "cfg srv = Some config"
      and "tool \<notin> set (BlockedTools config)"
      and "tool \<in> set (HighRiskTools config)"
      and "sendApprovalRequest e (trace s) approver = Inr oobCode"
      and "truthy progressToken \<longrightarrow>
             server_notification e (trace s @ [SendApprovalRequest approver])
               (progress_message progressToken) = Inr ()"
      and "taskId = genTaskId (clock s) (Math_random_toString36 e (trace s))"
      and "r = callTool cfg e srv tool toolargs progressToken s"
  shows "fst r = Inr (pending_poll_payload tool taskId)
       \<and> get_prop (get_prop (pending_poll_payload tool taskId) ''structuredContent'') ''status'' =
           JStr ''PENDING_APPROVAL_POLL''
       \<and> get_prop (get_prop (pending_poll_payload tool taskId) ''structuredContent'') ''taskId'' =
           JStr taskId
       \<and> pendingTasks (snd r) =
           (pendingTasks s)(taskId \<mapsto>
              \<lparr>toolName = tool, toolArgs = toolargs, status = PENDING, hitlOobCode = Some oobCode\<rparr>)
       \<and> trace (snd r) =
           trace s @ SendApprovalRequest approver #
             (if truthy progressToken then [progress_notification progressToken] else [])
       \<and> (pendingTasks s taskId = None \<longrightarrow>
            taskId \<notin> dom (pendingTasks s) \<and>
            dom (pendingTasks (snd r)) = insert taskId (dom (pendingTasks s)))"
proof -
  have r: "r = (Inr (pending_poll_payload tool taskId),
               (if truthy progressToken
                then emit e (progress_notification progressToken) else id)
                 (set_task taskId
                    \<lparr>toolName = tool, toolArgs = toolargs, status = PENDING,
                     hitlOobCode = Some oobCode\<rparr>
                    (emit e (SendApprovalRequest approver) s)))"
    using assms by (simp add: callTool_def table_lookup_own Let_def)
  have p: "pendingTasks (snd r) =
           (pendingTasks s)(taskId \<mapsto>
              \<lparr>toolName = tool, toolArgs = toolargs, status = PENDING, hitlOobCode = Some oobCode\<rparr>)"
    by (simp add: r)
  have t: "trace (snd r) =
           trace s @ SendApprovalRequest approver #
             (if truthy progressToken then [progress_notification progressToken] else [])"
    by (simp add: r)
  have d: "dom (pendingTasks (snd r)) = insert taskId (dom (pendingTasks s))"
    by (simp add: p)
  have f: "fst r = Inr (pending_poll_payload tool taskId)" by (simp add: r)
  show ?thesis
    using f p t d taskId_of_pending_poll_payload [of tool taskId] by (simp add: domIff)
qed

text \<open>
  C2, amended, at the first invocation of \<^verbatim>\<open>add_todos\<close> on the source's table, with a
  progress token and a notification that is sent: one task, one approval request,
  one notification.
\<close>

theorem high_risk_call_creates_pending_task_witness:
  "MCPServerMap ''secret'' ''todo-mcp-server'' = Some (todo_config ''secret'')
   \<and> ''add_todos'' \<notin> set (BlockedTools (todo_config ''secret''))
   \<and> ''add_todos'' \<in> set (HighRiskTools (todo_config ''secret''))
   \<and> sendApprovalRequest runtime_approving (trace initial_state) approver = Inr ''oob-1''
   \<and> truthy (JStr ''tok'')
   \<and> server_notification runtime_approving (trace initial_state @ [SendApprovalRequest approver])
        (progress_message (JStr ''tok'')) = Inr ()
   \<and> pendingTasks initial_state ''task-1700000000000-abcd'' = None
   \<and> fst (callTool (MCPServerMap ''secret'') runtime_approving ''todo-mcp-server'' ''add_todos''
            title_x (JStr ''tok'') initial_state) =
        Inr (pending_poll_payload ''add_todos'' ''task-1700000000000-abcd'')
   \<and> pendingTasks (snd (callTool (MCPServerMap ''secret'') runtime_approving ''todo-mcp-server''
            ''add_todos'' title_x (JStr ''tok'') initial_state)) =
        no_tasks(''task-1700000000000-abcd'' \<mapsto> add_todos_task title_x)
   \<and> trace (snd (callTool (MCPServerMap ''secret'') runtime_approving ''todo-mcp-server''
            ''add_todos'' title_x (JStr ''tok'') initial_state)) =
        [SendApprovalRequest approver, progress_notification (JStr ''tok'')]
   \<and> dom (pendingTasks (snd (callTool (MCPServerMap ''secret'') runtime_approving
            ''todo-mcp-server'' ''add_todos'' title_x (JStr ''tok'') initial_state))) =
        insert ''task-1700000000000-abcd'' (dom (pendingTasks initial_state))"
proof -
  have c: "MCPServerMap ''secret'' ''todo-mcp-server'' = Some (todo_config ''secret'')"
    by (simp add: MCPServerMap_def)
  have b: "''add_todos'' \<notin> set (BlockedTools (todo_config ''secret''))"
    by (simp add: todo_config_def)
  have h: "''add_todos'' \<in> set (HighRiskTools (todo_config ''secret''))"
    by (simp add: todo_config_def)
  have a: "sendApprovalRequest runtime_approving (trace initial_state) approver = Inr ''oob-1''"
    by (simp add: runtime_approving_def)
  have m: "server_notification runtime_approving (trace initial_state @ [SendApprovalRequest approver])
             (progress_message (JStr ''tok'')) = Inr ()"
    by (simp add: runtime_approving_def)
  have g: "''task-1700000000000-abcd'' =
           genTaskId (clock initial_state) (Math_random_toString36 runtime_approving (trace initial_state))"
    by (simp add: initial_state_def runtime_approving_def genTaskId_example)
  have n: "pendingTasks initial_state ''task-1700000000000-abcd'' = None"
    by (simp add: initial_state_def no_tasks_def)
  have i: "pendingTasks initial_state = no_tasks" "trace initial_state = []"
    by (simp_all add: initial_state_def)
  have t: "truthy (JStr ''tok'')" by simp
  show ?thesis
    using c b h a m n i t
      high_risk_call_creates_pending_task [where cfg = "MCPServerMap ''secret''"
        and srv = "''todo-mcp-server''" and toolargs = title_x and progressToken = "JStr ''tok''",
        OF c b h a impI [OF m] g refl]
    by (simp add: add_todos_task_def)
qed

section \<open>Approved tasks\<close>

text \<open>
  C1, as stated, fails. The task \<^verbatim>\<open>task-1700000000000-abcd\<close> is live and the channel reports
  approval, but the downstream call is rejected: the call is made once and the task
  is removed, yet the payload is the failure payload, with no \<^verbatim>\<open>COMPLETED\<close> status.
\<close>

theorem approved_downstream_failure_counterexample:
  "pendingTasks state_with_task ''task-1700000000000-abcd'' = Some (add_todos_task title_x)
   \<and> checkForApproval runtime_downstream_failing (trace state_with_task) ''oob-1'' = Inr ''APPROVED''
   \<and> trace (snd (handleTaskStatusCheck runtime_downstream_failing ''task-1700000000000-abcd'' state_with_task)) =
        [SendApprovalRequest approver, CheckForApproval ''oob-1'',
         DownstreamCallTool ''add_todos'' title_x]
   \<and> fst (handleTaskStatusCheck runtime_downstream_failing ''task-1700000000000-abcd'' state_with_task) =
        failed_payload ''task-1700000000000-abcd'' (Error ''Connection closed'')
   \<and> get_prop (get_prop (fst (handleTaskStatusCheck runtime_downstream_failing ''task-1700000000000-abcd''
                               state_with_task)) ''structuredContent'') ''status'' \<noteq> JStr ''COMPLETED''"
proof -
  have l: "pendingTasks state_with_task ''task-1700000000000-abcd'' = Some (add_todos_task title_x)"
    by (simp add: state_with_task_def)
  have c: "hitlOobCode (add_todos_task title_x) = Some ''oob-1''" "''oob-1'' \<noteq> []"
    by (simp_all add: add_todos_task_def)
  have a: "checkForApproval runtime_downstream_failing (trace state_with_task) ''oob-1'' =
           Inr ''APPROVED''"
    by (simp add: runtime_downstream_failing_def runtime_approving_def)
  show ?thesis
    using l a
    by (simp add: handleTaskStatusCheck_approved [OF l c a])
       (simp add: runtime_downstream_failing_def runtime_approving_def state_with_task_def
          add_todos_task_def)
qed

text \<open>
  C1, amended. When a live task's channel query reports approval, the query makes
  exactly one downstream call, with the name and arguments stored in the task, and
  removes the task. When that call returns a result, the payload is the result with
  \<^verbatim>\<open>structuredContent\<close> set to status \<^verbatim>\<open>COMPLETED\<close> and the task's tool name, and the
  \<^verbatim>\<open>check_task_status\<close> loop returns it at once; when the call is rejected, the query's
  payload is the failure payload. The following query of the same taskId, in any
  environment, returns not-found and leaves the state as it is. In any query, a
  downstream call is made only for a live task whose channel answer in that query
  was approval; creating a task makes no downstream call.
\<close>

theorem approved_task_runs_once:
  assumes "pendingTasks s taskId = Some t"
      and "hitlOobCode t = Some oobCode" and "oobCode \<noteq> []"
      and "checkForApproval e (trace s) oobCode = Inr ''APPROVED''"
      and "q = handleTaskStatusCheck e taskId s"
      and "d = downstream_callTool e (trace s @ [CheckForApproval oobCode]) (toolName t) (toolArgs t)"
  shows "trace (snd q) =
           trace s @ [CheckForApproval oobCode, DownstreamCallTool (toolName t) (toolArgs t)]
       \<and> pendingTasks (snd q) = (pendingTasks s)(taskId := None)
       \<and> (\<forall>r. d = Inr r \<longrightarrow>
              fst q = completed_payload r (toolName t)
            \<and> get_prop (get_prop (fst q) ''structuredContent'') ''status'' = JStr ''COMPLETED''
            \<and> get_prop (get_prop (fst q) ''structuredContent'') ''tool'' = JStr (toolName t)
            \<and> (clock s < startTime + 10000 \<longrightarrow> poll_loop e taskId startTime lastresult s = q))
       \<and> (\<forall>err. d = Inl err \<longrightarrow> fst q = failed_payload taskId err)
       \<and> (\<forall>e'. handleTaskStatusCheck e' taskId (snd q) = (not_found_payload taskId, snd q))
       \<and> (\<forall>e' taskId' s' n a.
              DownstreamCallTool n a \<in>
                set (drop (length (trace s')) (trace (snd (handleTaskStatusCheck e' taskId' s')))) \<longrightarrow>
              (\<exists>t' c. pendingTasks s' taskId' = Some t' \<and> hitlOobCode t' = Some c
                    \<and> checkForApproval e' (trace s') c = Inr ''APPROVED''
                    \<and> n = toolName t' \<and> a = toolArgs t'))
       \<and> (\<forall>cfg srv config tool toolargs tok s' n a.
              cfg srv = Some config \<and> tool \<in> set (HighRiskTools config) \<longrightarrow>
              DownstreamCallTool n a \<notin>
                set (drop (length (trace s')) (trace (snd (callTool cfg e srv tool toolargs tok s')))))"
proof -
  note h = handleTaskStatusCheck_approved [OF assms(1-4), folded assms(5) assms(6)]
  have 1: "trace (snd q) =
           trace s @ [CheckForApproval oobCode, DownstreamCallTool (toolName t) (toolArgs t)]"
    by (simp add: h)
  have 2: "pendingTasks (snd q) = (pendingTasks s)(taskId := None)"
    by (simp add: h)
  have 3: "fst q = completed_payload r (toolName t)" if "d = Inr r" for r
    using that by (simp add: h)
  have 4: "poll_loop e taskId startTime lastresult s = q"
    if "d = Inr r" "clock s < startTime + 10000" for r
    using that 3 [OF that(1)] completed_status [of r "toolName t"] assms(5)
    by (simp add: poll_loop.simps [of e taskId startTime lastresult s] Let_def)
  have 5: "fst q = failed_payload taskId err" if "d = Inl err" for err
    using that by (simp add: h)
  have 6: "handleTaskStatusCheck e' taskId (snd q) = (not_found_payload taskId, snd q)" for e'
    by (rule handleTaskStatusCheck_absent) (simp add: 2)
  have 7: "\<forall>e' taskId' s' n a.
              DownstreamCallTool n a \<in>
                set (drop (length (trace s')) (trace (snd (handleTaskStatusCheck e' taskId' s')))) \<longrightarrow>
              (\<exists>t' c. pendingTasks s' taskId' = Some t' \<and> hitlOobCode t' = Some c
                    \<and> checkForApproval e' (trace s') c = Inr ''APPROVED''
                    \<and> n = toolName t' \<and> a = toolArgs t')"
    using handleTaskStatusCheck_downstream_only_approved by blast
  have 8: "\<forall>cfg srv config tool toolargs tok s' n a.
              cfg srv = Some config \<and> tool \<in> set (HighRiskTools config) \<longrightarrow>
              DownstreamCallTool n a \<notin>
                set (drop (length (trace s')) (trace (snd (callTool cfg e srv tool toolargs tok s'))))"
    using callTool_gated_no_downstream by blast
  have 9: "get_prop (get_prop (fst q) ''structuredContent'') ''status'' = JStr ''COMPLETED''
         \<and> get_prop (get_prop (fst q) ''structuredContent'') ''tool'' = JStr (toolName t)"
    if "d = Inr r" for r
    using 3 [OF that] completed_status [of r "toolName t"] by simp
  show ?thesis
    using 1 2 3 4 5 6 7 8 9 by blast
qed

text \<open>
  C1, amended, on the live task \<^verbatim>\<open>task-1700000000000-abcd\<close> with an approving channel and a
  downstream server that answers: one call of \<^verbatim>\<open>add_todos\<close> with the stored arguments,
  a \<^verbatim>\<open>COMPLETED\<close> payload, an empty task map, and not-found on the next query.
\<close>

theorem approved_task_runs_once_witness:
  "pendingTasks state_with_task ''task-1700000000000-abcd'' = Some (add_todos_task title_x)
   \<and> hitlOobCode (add_todos_task title_x) = Some ''oob-1''
   \<and> checkForApproval runtime_approving (trace state_with_task) ''oob-1'' = Inr ''APPROVED''
   \<and> downstream_callTool runtime_approving (trace state_with_task @ [CheckForApproval ''oob-1''])
        ''add_todos'' title_x = Inr [(''content'', text_content ''done'')]
   \<and> clock state_with_task < clock state_with_task + 10000
   \<and> trace (snd (handleTaskStatusCheck runtime_approving ''task-1700000000000-abcd'' state_with_task)) =
        [SendApprovalRequest approver, CheckForApproval ''oob-1'',
         DownstreamCallTool ''add_todos'' title_x]
   \<and> pendingTasks (snd (handleTaskStatusCheck runtime_approving ''task-1700000000000-abcd'' state_with_task)) =
        no_tasks
   \<and> fst (handleTaskStatusCheck runtime_approving ''task-1700000000000-abcd'' state_with_task) =
        completed_payload [(''content'', text_content ''done'')] ''add_todos''
   \<and> get_prop (get_prop (fst (handleTaskStatusCheck runtime_approving ''task-1700000000000-abcd''
                               state_with_task)) ''structuredContent'') ''status'' = JStr ''COMPLETED''
   \<and> poll_loop runtime_approving ''task-1700000000000-abcd'' (clock state_with_task) JUndefined state_with_task =
        handleTaskStatusCheck runtime_approving ''task-1700000000000-abcd'' state_with_task
   \<and> handleTaskStatusCheck runtime_denying ''task-1700000000000-abcd''
        (snd (handleTaskStatusCheck runtime_approving ''task-1700000000000-abcd'' state_with_task)) =
        (not_found_payload ''task-1700000000000-abcd'',
         snd (handleTaskStatusCheck runtime_approving ''task-1700000000000-abcd'' state_with_task))"
proof -
  have l: "pendingTasks state_with_task ''task-1700000000000-abcd'' = Some (add_todos_task title_x)"
    by (simp add: state_with_task_def)
  have c: "hitlOobCode (add_todos_task title_x) = Some ''oob-1''" "''oob-1'' \<noteq> []"
    by (simp_all add: add_todos_task_def)
  have a: "checkForApproval runtime_approving (trace state_with_task) ''oob-1'' = Inr ''APPROVED''"
    by (simp add: runtime_approving_def)
  have d: "downstream_callTool runtime_approving (trace state_with_task @ [CheckForApproval ''oob-1''])
             ''add_todos'' title_x = Inr [(''content'', text_content ''done'')]"
    by (simp add: runtime_approving_def)
  have d': "downstream_callTool runtime_approving (trace state_with_task @ [CheckForApproval ''oob-1''])
             (toolName (add_todos_task title_x)) (toolArgs (add_todos_task title_x)) =
            Inr [(''content'', text_content ''done'')]"
    by (simp add: runtime_approving_def)
  have w: "clock state_with_task < clock state_with_task + 10000" by simp
  have n: "toolName (add_todos_task title_x) = ''add_todos''"
          "toolArgs (add_todos_task title_x) = title_x"
    by (simp_all add: add_todos_task_def)
  have tr: "trace state_with_task = [SendApprovalRequest approver]"
    by (simp add: state_with_task_def)
  have pt: "(pendingTasks state_with_task)(''task-1700000000000-abcd'' := None) = no_tasks"
    by (simp add: state_with_task_def no_tasks_def)
  show ?thesis
    using l c a d w
      approved_task_runs_once [OF l c a refl refl,
        of "clock state_with_task" JUndefined]
    by (simp add: d' n tr pt completed_status)
qed

section \<open>Denied tasks and the bounded wait\<close>

text \<open>
  C3. The task \<^verbatim>\<open>task-1700000000000-abcd\<close> is live and the channel denies it. The query itself,
  \<^verbatim>\<open>handleTaskStatusCheck\<close>, returns the failure payload with \<^verbatim>\<open>isError\<close> true and
  removes the task. The \<^verbatim>\<open>check_task_status\<close> request does not return that payload:
  it has no status, so the loop waits and queries again, finds the task gone, and
  after three rounds the caller gets the not-found payload, which has no
  \<^verbatim>\<open>isError\<close>.
\<close>

theorem denied_task_reported_not_found:
  "pendingTasks state_with_task ''task-1700000000000-abcd'' = Some (add_todos_task title_x)
   \<and> checkForApproval runtime_denying (trace state_with_task) ''oob-1'' = Inl access_denied
   \<and> handleTaskStatusCheck runtime_denying ''task-1700000000000-abcd'' state_with_task =
        (failed_payload ''task-1700000000000-abcd'' access_denied,
         \<lparr>pendingTasks = no_tasks(''task-1700000000000-abcd'' := None),
          trace = [SendApprovalRequest approver, CheckForApproval ''oob-1''], clock = 1700000000000\<rparr>)
   \<and> get_prop (failed_payload ''task-1700000000000-abcd'' access_denied) ''isError'' = JBool True
   \<and> fst (handleCallTool (MCPServerMap ''secret'') runtime_denying ''todo-mcp-server''
             live_task_request state_with_task) = Inr (not_found_payload ''task-1700000000000-abcd'')
   \<and> get_prop (not_found_payload ''task-1700000000000-abcd'') ''isError'' = JUndefined
   \<and> trace (snd (handleCallTool (MCPServerMap ''secret'') runtime_denying ''todo-mcp-server''
             live_task_request state_with_task)) =
        [SendApprovalRequest approver, CheckForApproval ''oob-1'',
         Sleep 4000, Sleep 4000, Sleep 4000]"
proof -
  have l: "pendingTasks state_with_task ''task-1700000000000-abcd'' = Some (add_todos_task title_x)"
    by (simp add: state_with_task_def)
  have c: "hitlOobCode (add_todos_task title_x) = Some ''oob-1''" "''oob-1'' \<noteq> []"
    by (simp_all add: add_todos_task_def)
  have a: "checkForApproval runtime_denying (trace state_with_task) ''oob-1'' = Inl access_denied"
    by (simp add: runtime_denying_def runtime_approving_def)
  note q = handleTaskStatusCheck_denied [OF l c a]
  have q': "handleTaskStatusCheck runtime_denying ''task-1700000000000-abcd'' state_with_task =
        (failed_payload ''task-1700000000000-abcd'' access_denied,
         \<lparr>pendingTasks = no_tasks(''task-1700000000000-abcd'' := None),
          trace = [SendApprovalRequest approver, CheckForApproval ''oob-1''], clock = 1700000000000\<rparr>)"
    by (simp add: q)
       (simp add: state_with_task_def emit_def delete_task_def runtime_denying_def
          runtime_approving_def)
  have h: "handleCallTool (MCPServerMap ''secret'') runtime_denying ''todo-mcp-server''
             live_task_request state_with_task =
           (Inr (fst (poll_loop runtime_denying ''task-1700000000000-abcd'' 1700000000000 JUndefined state_with_task)),
            snd (poll_loop runtime_denying ''task-1700000000000-abcd'' 1700000000000 JUndefined state_with_task))"
    by (simp add: handleCallTool_def live_task_request_def check_request_def Let_def
          state_with_task_def)
  have p: "poll_loop runtime_denying ''task-1700000000000-abcd'' 1700000000000 JUndefined state_with_task =
           (not_found_payload ''task-1700000000000-abcd'',
            \<lparr>pendingTasks = no_tasks(''task-1700000000000-abcd'' := None),
             trace = [SendApprovalRequest approver, CheckForApproval ''oob-1'',
                      Sleep 4000, Sleep 4000, Sleep 4000], clock = 1700000012000\<rparr>)"
    by (simp add: poll_loop.simps handleTaskStatusCheck_def emit_def delete_task_def
          state_with_task_def runtime_denying_def runtime_approving_def add_todos_task_def
          no_tasks_def Let_def)
  show ?thesis
    using l a q' by (simp add: h p not_found_payload_def)
qed

text \<open>
  C5. The taskId \<^verbatim>\<open>task-1-zzzz\<close> is not live. The first query already answers
  not-found, which is not \<^verbatim>\<open>PENDING\<close>; the \<^verbatim>\<open>check_task_status\<close> request does not
  return then, but waits four seconds three times over, twelve seconds in all,
  before it returns the not-found payload.
\<close>

theorem unknown_task_polled_until_window_ends:
  "handleTaskStatusCheck runtime_approving ''task-1-zzzz'' initial_state =
     (not_found_payload ''task-1-zzzz'', initial_state)
   \<and> not_found_payload ''task-1-zzzz'' \<noteq> still_pending_payload ''task-1-zzzz'' ''add_todos''
   \<and> handleCallTool (MCPServerMap ''secret'') runtime_approving ''todo-mcp-server''
        unknown_task_request initial_state =
       (Inr (not_found_payload ''task-1-zzzz''),
        \<lparr>pendingTasks = no_tasks, trace = [Sleep 4000, Sleep 4000, Sleep 4000], clock = 1700000012000\<rparr>)"
proof -
  have lat: "latency runtime_approving tr ev = 0" for tr ev
    by (simp add: runtime_approving_def)
  have a: "pendingTasks initial_state ''task-1-zzzz'' = None"
    by (simp add: initial_state_def no_tasks_def)
  have p: "poll_loop runtime_approving ''task-1-zzzz'' 1700000000000 JUndefined initial_state =
           (not_found_payload ''task-1-zzzz'',
            \<lparr>pendingTasks = no_tasks, trace = [Sleep 4000, Sleep 4000, Sleep 4000],
             clock = 1700000012000\<rparr>)"
    by (simp add: poll_loop.simps handleTaskStatusCheck_def emit_def lat no_tasks_def
          initial_state_def)
  have h: "handleCallTool (MCPServerMap ''secret'') runtime_approving ''todo-mcp-server''
             unknown_task_request initial_state =
           (Inr (fst (poll_loop runtime_approving ''task-1-zzzz'' 1700000000000 JUndefined initial_state)),
            snd (poll_loop runtime_approving ''task-1-zzzz'' 1700000000000 JUndefined initial_state))"
    by (simp add: handleCallTool_def unknown_task_request_def check_request_def Let_def
          initial_state_def)
  show ?thesis
    by (simp add: h p handleTaskStatusCheck_absent [OF a])
       (simp add: not_found_payload_def still_pending_payload_def)
qed

section \<open>Unknown server, and failing downstream calls\<close>



text \<open>
  C9. \<^verbatim>\<open>get_todos\<close> is neither blocked nor high-risk, and the downstream call is
  rejected. The call is forwarded once, and what the caller gets is \<^verbatim>\<open>null\<close>, not
  an error payload.
\<close>

theorem normal_tool_failure_returns_null:
  "''get_todos'' \<notin> set (BlockedTools (todo_config ''secret''))
   \<and> ''get_todos'' \<notin> set (HighRiskTools (todo_config ''secret''))
   \<and> downstream_callTool runtime_downstream_failing (trace initial_state) ''get_todos'' (JObj []) =
        Inl (Error ''Connection closed'')
   \<and> callTool (MCPServerMap ''secret'') runtime_downstream_failing ''todo-mcp-server''
        ''get_todos'' (JObj []) JUndefined initial_state =
       (Inr JNull, \<lparr>pendingTasks = no_tasks, trace = [DownstreamCallTool ''get_todos'' (JObj [])],
                    clock = 1700000000000\<rparr>)
   \<and> get_prop JNull ''isError'' = JUndefined"
  by (simp add: callTool_def table_lookup_def MCPServerMap_def todo_config_def
        runtime_downstream_failing_def runtime_approving_def initial_state_def emit_def Let_def)

end
